theory Spec2Isabelle
  imports Main "HOL-Library.Sublist"
begin

unbundle bit_operations_syntax

section \<open>Text\<close>

text \<open>
  A Python \<open>str\<close> is modelled as a \<open>string\<close>: a list of 8-bit characters, read as the
  Unicode code points U+0000 to U+00FF. On that range \<open>len\<close> is \<open>length\<close>,
  \<open>str.lower\<close> shifts A-Z and the Latin-1 capitals (U+00C0 to U+00DE, the
  multiplication sign apart) by 32, \<open>str.strip\<close> removes the characters for which
  \<open>str.isspace\<close> holds from both ends, and the regular expression class \<open>\D\<close> is
  everything but the ten decimal digits.
\<close>

definition lower_char :: "char \<Rightarrow> char" where
  "lower_char c =
     (let n = of_char c :: nat in
      if (65 \<le> n \<and> n \<le> 90) \<or> (192 \<le> n \<and> n \<le> 222 \<and> n \<noteq> 215)
      then char_of (n + 32) else c)"

definition lower :: "string \<Rightarrow> string" where
  "lower s = map lower_char s"

definition isspace :: "char \<Rightarrow> bool" where
  "isspace c =
     (let n = of_char c :: nat in
      (9 \<le> n \<and> n \<le> 13) \<or> (28 \<le> n \<and> n \<le> 32) \<or> n = 133 \<or> n = 160)"

definition strip :: "string \<Rightarrow> string" where
  "strip s = rev (dropWhile isspace (rev (dropWhile isspace s)))"

definition isdigit :: "char \<Rightarrow> bool" where
  "isdigit c = (let n = of_char c :: nat in 48 \<le> n \<and> n \<le> 57)"

text \<open>\<open>re.sub(r'\D', '', s)\<close>: every character that is not a digit is removed.\<close>

definition digits_only :: "string \<Rightarrow> string" where
  "digits_only s = filter isdigit s"

text \<open>\<open>sub in s\<close> on strings: \<open>sub\<close> occurs in \<open>s\<close> as a contiguous run.\<close>

definition contains :: "string \<Rightarrow> string \<Rightarrow> bool" where
  "contains s sub = sublist sub s"

text \<open>\<open>s.startswith(p)\<close>.\<close>

definition startswith :: "string \<Rightarrow> string \<Rightarrow> bool" where
  "startswith s p = prefix p s"

text \<open>
  \<open>s.replace(old, '')\<close> for a non-empty \<open>old\<close>: scanning from the left, every
  occurrence of \<open>old\<close> is dropped and the scan goes on after it.
\<close>

fun remove_all :: "string \<Rightarrow> string \<Rightarrow> string" where
  "remove_all old [] = []"
| "remove_all old (c # cs) =
     (if old \<noteq> [] \<and> prefix old (c # cs)
      then remove_all old (drop (length old - 1) cs)
      else c # remove_all old cs)"

text \<open>\<open>str(n)\<close> for a non-negative integer: its decimal digits.\<close>

fun digit_char :: "nat \<Rightarrow> char" where
  "digit_char n = char_of (48 + n mod 10)"

function str_nat :: "nat \<Rightarrow> string" where
  "str_nat n = (if n < 10 then [digit_char n] else str_nat (n div 10) @ [digit_char n])"
  by pat_completeness auto
termination
  by (relation "measure id") auto

section \<open>MD5\<close>

text \<open>
  \<open>hashlib.md5(s.encode()).hexdigest()\<close>. \<open>encode\<close> is UTF-8: a code point below 128
  is one byte, one from 128 to 255 is two. The digest is RFC 1321's, on 32-bit values
  kept as integers reduced modulo \<open>2 ^ 32\<close>.
\<close>

definition encode :: "string \<Rightarrow> int list" where
  "encode s =
     concat (map (\<lambda>c. let n = of_char c :: int in
                        if n < 128 then [n] else [192 + n div 64, 128 + n mod 64]) s)"

definition w32 :: "int \<Rightarrow> int" where
  "w32 x = x mod 4294967296"

definition rotl32 :: "int \<Rightarrow> nat \<Rightarrow> int" where
  "rotl32 x n = w32 (x * 2 ^ n) + w32 x div 2 ^ (32 - n)"

definition md5_s :: "nat list" where
  "md5_s =
     [7, 12, 17, 22, 7, 12, 17, 22, 7, 12, 17, 22, 7, 12, 17, 22,
      5, 9, 14, 20, 5, 9, 14, 20, 5, 9, 14, 20, 5, 9, 14, 20,
      4, 11, 16, 23, 4, 11, 16, 23, 4, 11, 16, 23, 4, 11, 16, 23,
      6, 10, 15, 21, 6, 10, 15, 21, 6, 10, 15, 21, 6, 10, 15, 21]"

definition md5_K :: "int list" where
  "md5_K =
     [0xd76aa478, 0xe8c7b756, 0x242070db, 0xc1bdceee, 0xf57c0faf, 0x4787c62a, 0xa8304613,
      0xfd469501, 0x698098d8, 0x8b44f7af, 0xffff5bb1, 0x895cd7be, 0x6b901122, 0xfd987193,
      0xa679438e, 0x49b40821, 0xf61e2562, 0xc040b340, 0x265e5a51, 0xe9b6c7aa, 0xd62f105d,
      0x02441453, 0xd8a1e681, 0xe7d3fbc8, 0x21e1cde6, 0xc33707d6, 0xf4d50d87, 0x455a14ed,
      0xa9e3e905, 0xfcefa3f8, 0x676f02d9, 0x8d2a4c8a, 0xfffa3942, 0x8771f681, 0x6d9d6122,
      0xfde5380c, 0xa4beea44, 0x4bdecfa9, 0xf6bb4b60, 0xbebfbc70, 0x289b7ec6, 0xeaa127fa,
      0xd4ef3085, 0x04881d05, 0xd9d4d039, 0xe6db99e5, 0x1fa27cf8, 0xc4ac5665, 0xf4292244,
      0x432aff97, 0xab9423a7, 0xfc93a039, 0x655b59c3, 0x8f0ccc92, 0xffeff47d, 0x85845dd1,
      0x6fa87e4f, 0xfe2ce6e0, 0xa3014314, 0x4e0811a1, 0xf7537e82, 0xbd3af235, 0x2ad7d2bb,
      0xeb86d391]"

text \<open>The message, the byte 128, zero bytes up to 56 modulo 64, the bit length in 8 bytes.\<close>

definition le_bytes :: "nat \<Rightarrow> int \<Rightarrow> int list" where
  "le_bytes k x = map (\<lambda>i. (x div 256 ^ i) mod 256) [0..<k]"

definition md5_pad :: "int list \<Rightarrow> int list" where
  "md5_pad bs =
     bs @ [128] @ replicate ((119 - length bs mod 64) mod 64) 0
        @ le_bytes 8 (int (8 * length bs) mod 2 ^ 64)"

fun le_words :: "int list \<Rightarrow> int list" where
  "le_words (a # b # c # d # bs) = (a + 256 * b + 65536 * c + 16777216 * d) # le_words bs"
| "le_words _ = []"

definition md5_round :: "int list \<Rightarrow> nat \<Rightarrow> int \<times> int \<times> int \<times> int \<Rightarrow> int \<times> int \<times> int \<times> int"
  where
  "md5_round M i st =
     (case st of (A, B, C, D) \<Rightarrow>
        let F = (if i < 16 then w32 ((B AND C) OR (NOT B AND D))
                 else if i < 32 then w32 ((D AND B) OR (NOT D AND C))
                 else if i < 48 then w32 (B XOR C XOR D)
                 else w32 (C XOR (B OR NOT D)));
            g = (if i < 16 then i
                 else if i < 32 then (5 * i + 1) mod 16
                 else if i < 48 then (3 * i + 5) mod 16
                 else (7 * i) mod 16);
            F' = w32 (F + A + md5_K ! i + M ! g)
        in (D, w32 (B + rotl32 F' (md5_s ! i)), B, C))"

definition md5_block :: "int \<times> int \<times> int \<times> int \<Rightarrow> int list \<Rightarrow> int \<times> int \<times> int \<times> int" where
  "md5_block h M =
     (case h of (a0, b0, c0, d0) \<Rightarrow>
        (case foldl (\<lambda>st i. md5_round M i st) h [0..<64] of (A, B, C, D) \<Rightarrow>
           (w32 (a0 + A), w32 (b0 + B), w32 (c0 + C), w32 (d0 + D))))"

fun md5_blocks :: "nat \<Rightarrow> int \<times> int \<times> int \<times> int \<Rightarrow> int list \<Rightarrow> int \<times> int \<times> int \<times> int" where
  "md5_blocks 0 h ws = h"
| "md5_blocks (Suc n) h ws = md5_blocks n (md5_block h (take 16 ws)) (drop 16 ws)"

definition hex_char :: "int \<Rightarrow> char" where
  "hex_char n = (if n < 10 then char_of (48 + n) else char_of (87 + n))"

definition hex_byte :: "int \<Rightarrow> string" where
  "hex_byte b = [hex_char (b div 16), hex_char (b mod 16)]"

definition md5_hexdigest :: "int list \<Rightarrow> string" where
  "md5_hexdigest bs =
     (let ws = le_words (md5_pad bs) in
      case md5_blocks (length ws div 16) (0x67452301, 0xefcdab89, 0x98badcfe, 0x10325476) ws
      of (a, b, c, d) \<Rightarrow> concat (map hex_byte (concat (map (le_bytes 4) [a, b, c, d]))))"

section \<open>Pantry records\<close>

text \<open>
  The dataclass \<open>Pantry\<close> of \<open>foodpantries-scraper.py\<close>: \<open>name\<close> is a \<open>str\<close>, every
  other field an \<open>Optional[str]\<close>. The field \<open>zip\<close> is called \<open>zip_code\<close> here.
\<close>

record Pantry =
  name :: string
  address :: "string option"
  city :: "string option"
  state :: "string option"
  zip_code :: "string option"
  phone :: "string option"
  fax :: "string option"
  email :: "string option"
  website :: "string option"
  hours :: "string option"
  description :: "string option"
  requirements :: "string option"
  source_url :: "string option"
  source_site :: "string option"

text \<open>Python's truth value of an \<open>Optional[str]\<close>: \<open>None\<close> and \<open>''\<close> are false.\<close>

definition truthy :: "string option \<Rightarrow> bool" where
  "truthy v = (case v of None \<Rightarrow> False | Some s \<Rightarrow> s \<noteq> [])"

definition py_str :: "string option \<Rightarrow> string" where
  "py_str v = (case v of None \<Rightarrow> ''None'' | Some s \<Rightarrow> s)"

text \<open>
  The four parts of the fingerprint string, in order: \<open>name_norm\<close>, \<open>addr_norm\<close>,
  \<open>phone_norm\<close> and \<open>self.zip or ''\<close>.
\<close>

definition name_norm :: "Pantry \<Rightarrow> string" where
  "name_norm p = (if name p \<noteq> [] then strip (lower (name p)) else [])"

definition addr_norm :: "Pantry \<Rightarrow> string" where
  "addr_norm p =
     (case address p of Some a \<Rightarrow> if a \<noteq> [] then strip (lower a) else [] | None \<Rightarrow> [])"

definition phone_norm :: "Pantry \<Rightarrow> string" where
  "phone_norm p =
     (case phone p of Some t \<Rightarrow> if t \<noteq> [] then digits_only t else [] | None \<Rightarrow> [])"

definition zip_or_empty :: "Pantry \<Rightarrow> string" where
  "zip_or_empty p = (if truthy (zip_code p) then py_str (zip_code p) else [])"

definition fingerprint_str :: "Pantry \<Rightarrow> string" where
  "fingerprint_str p =
     name_norm p @ ''|'' @ addr_norm p @ ''|'' @ phone_norm p @ ''|'' @ zip_or_empty p"

definition get_fingerprint :: "Pantry \<Rightarrow> string" where
  "get_fingerprint p = md5_hexdigest (encode (fingerprint_str p))"

text \<open>
  One step of the loop of \<open>merge_with\<close> over the fields: \<open>merge_val\<close> for an optional
  field, \<open>merge_name\<close> for \<open>name\<close>, where \<open>str(v)\<close> is \<open>v\<close> itself.
\<close>

definition merge_val :: "string option \<Rightarrow> string option \<Rightarrow> string option" where
  "merge_val self_val other_val =
     (if truthy self_val \<and> truthy other_val
      then (if length (py_str self_val) \<ge> length (py_str other_val) then self_val else other_val)
      else (if truthy self_val then self_val else other_val))"

definition merge_name :: "string \<Rightarrow> string \<Rightarrow> string" where
  "merge_name self_val other_val =
     (if self_val \<noteq> [] \<and> other_val \<noteq> []
      then (if length self_val \<ge> length other_val then self_val else other_val)
      else (if self_val \<noteq> [] then self_val else other_val))"

definition merge_with :: "Pantry \<Rightarrow> Pantry \<Rightarrow> Pantry" where
  "merge_with self other =
     \<lparr> name = merge_name (name self) (name other),
       address = merge_val (address self) (address other),
       city = merge_val (city self) (city other),
       state = merge_val (state self) (state other),
       zip_code = merge_val (zip_code self) (zip_code other),
       phone = merge_val (phone self) (phone other),
       fax = merge_val (fax self) (fax other),
       email = merge_val (email self) (email other),
       website = merge_val (website self) (website other),
       hours = merge_val (hours self) (hours other),
       description = merge_val (description self) (description other),
       requirements = merge_val (requirements self) (requirements other),
       source_url = merge_val (source_url self) (source_url other),
       source_site = merge_val (source_site self) (source_site other) \<rparr>"

text \<open>The optional fields of a record, in the order of the dataclass.\<close>

definition optional_fields :: "(Pantry \<Rightarrow> string option) list" where
  "optional_fields =
     [address, city, state, zip_code, phone, fax, email, website, hours, description,
      requirements, source_url, source_site]"

text \<open>\<open>Pantry(name=n)\<close>: every optional field takes its default \<open>None\<close>.\<close>

definition new_Pantry :: "string \<Rightarrow> Pantry" where
  "new_Pantry n =
     \<lparr> name = n, address = None, city = None, state = None, zip_code = None, phone = None,
       fax = None, email = None, website = None, hours = None, description = None,
       requirements = None, source_url = None, source_site = None \<rparr>"

text \<open>
  The merge policy in the words of the specification: the longer value when both are
  present, the stored one on a tie; the present one when only one is; absent otherwise.
  A value is present when it is not \<open>None\<close>.
\<close>

definition spec_merge :: "string option \<Rightarrow> string option \<Rightarrow> string option" where
  "spec_merge a b =
     (case a of
        None \<Rightarrow> b
      | Some x \<Rightarrow> (case b of None \<Rightarrow> Some x
                   | Some y \<Rightarrow> if length y > length x then Some y else Some x))"

section \<open>The deduplicating store\<close>

record DeduplicatedPantryDatabase =
  pantries :: "string \<rightharpoonup> Pantry"
  fingerprints :: "string set"

datatype py_error = KeyError

definition init_db :: DeduplicatedPantryDatabase where
  "init_db = \<lparr> pantries = Map.empty, fingerprints = {} \<rparr>"

text \<open>
  \<open>add_pantry\<close> returns the flag and the updated store; \<open>self.pantries[fingerprint]\<close>
  raises \<open>KeyError\<close> on a key the dictionary does not have.
\<close>

definition add_pantry ::
  "DeduplicatedPantryDatabase \<Rightarrow> Pantry \<Rightarrow> py_error + (bool \<times> DeduplicatedPantryDatabase)" where
  "add_pantry db pantry =
     (let fingerprint = get_fingerprint pantry in
      if fingerprint \<in> fingerprints db
      then (case pantries db fingerprint of
              None \<Rightarrow> Inl KeyError
            | Some existing \<Rightarrow>
                Inr (False, db\<lparr>pantries := (pantries db)(fingerprint \<mapsto> merge_with existing pantry)\<rparr>))
      else Inr (True, db\<lparr>pantries := (pantries db)(fingerprint \<mapsto> pantry),
                         fingerprints := insert fingerprint (fingerprints db)\<rparr>))"

text \<open>A sequence of \<open>add_pantry\<close> calls on one store, stopping at the first exception.\<close>

fun add_all ::
  "DeduplicatedPantryDatabase \<Rightarrow> Pantry list \<Rightarrow> py_error + DeduplicatedPantryDatabase" where
  "add_all db [] = Inr db"
| "add_all db (p # ps) =
     (case add_pantry db p of Inl e \<Rightarrow> Inl e | Inr (is_new, db') \<Rightarrow> add_all db' ps)"

text \<open>\<open>len(self.pantries)\<close>, the \<open>total\<close> of \<open>get_stats\<close>.\<close>

definition total_records :: "DeduplicatedPantryDatabase \<Rightarrow> nat" where
  "total_records db = card (dom (pantries db))"

section \<open>Extraction from a page\<close>

text \<open>
  The regular expressions of the scrapers, by name. \<open>re.search\<close> is a parameter of the
  model: \<open>search pattern text\<close> is \<open>None\<close> when the pattern matches nowhere in the
  text and \<open>Some m\<close> for the first match, where \<open>m i\<close> is \<open>m.group(i)\<close>; the
  scrapers read only groups their patterns have.

  \<^item> \<open>Name_Contact\<close>: \<^verbatim>\<open>^([^\n]+)\s*Contact Information\<close>, multi-line
  \<^item> \<open>Contact_Section\<close>:
    \<^verbatim>\<open>Contact Information\s*(.+?)\s*([^,\n]+),\s*([A-Z]{2})\s*-\s*(\d{5})\<close>, dot matches all
  \<^item> \<open>Phone_Label\<close>: \<^verbatim>\<open>Phone:\s*(\([0-9]{3}\)\s*[0-9]{3}-[0-9]{4})\<close>
  \<^item> \<open>Fax_Number\<close>: \<^verbatim>\<open>Fax Number:\s*(\([0-9]{3}\)\s*[0-9]{3}-[0-9]{4})\<close>
  \<^item> \<open>Hours_Label\<close>:
    \<^verbatim>\<open>(?:Pantry|Food Pantry|Distribution)?\s*Hours?:\s*([^\n]+(?:\n(?![A-Z][a-z]+:)[^\n]+)*)\<close>,
    ignoring case
  \<^item> \<open>Weekday_Time\<close>:
    \<^verbatim>\<open>(?:Monday|Tuesday|Wednesday|Thursday|Friday|Saturday|Sunday)[^\n]*(?:\d{1,2}:\d{2}[ap]m)[^\n]*\<close>,
    ignoring case
  \<^item> \<open>Requirements_Label\<close>: \<^verbatim>\<open>Requirements?:\s*([^\n]+(?:\n(?![A-Z][a-z]+:)[^\n]+)*)\<close>,
    ignoring case
  \<^item> \<open>Address_211\<close>: \<^verbatim>\<open>([^\n]+)\n([^,\n]+),\s*([A-Z]{2})\s+(\d{5}(?:-\d{4})?)\<close>
  \<^item> \<open>Phone_Paren_211\<close>: \<^verbatim>\<open>Phone:?\s*(\(\d{3}\)\s*\d{3}-\d{4})\<close>, ignoring case
  \<^item> \<open>Phone_Dash_211\<close>: \<^verbatim>\<open>Phone:?\s*(\d{3}-\d{3}-\d{4})\<close>, ignoring case
  \<^item> \<open>Tel_211\<close>: \<^verbatim>\<open>Tel:?\s*(\(\d{3}\)\s*\d{3}-\d{4})\<close>, ignoring case
  \<^item> \<open>Email_211\<close>: \<^verbatim>\<open>[\w\.-]+@[\w\.-]+\.\w+\<close>
  \<^item> \<open>Hours_211\<close>: \<^verbatim>\<open>Hours?:?\s*([^\n]+(?:\n(?![A-Z][a-z]+:)[^\n]+){0,5})\<close>, ignoring case
  \<^item> \<open>Open_211\<close>: \<^verbatim>\<open>Open:?\s*([^\n]+(?:\n(?![A-Z][a-z]+:)[^\n]+){0,3})\<close>, ignoring case
  \<^item> \<open>Description_211\<close>:
    \<^verbatim>\<open>Description:?\s*([^\n]+(?:\n(?![A-Z][a-z]+:)[^\n]+){0,10})\<close>, ignoring case
  \<^item> \<open>Service_Description_211\<close>:
    \<^verbatim>\<open>Service Description:?\s*([^\n]+(?:\n(?![A-Z][a-z]+:)[^\n]+){0,10})\<close>, ignoring case
  \<^item> \<open>Eligibility_211\<close>:
    \<^verbatim>\<open>Eligibility:?\s*([^\n]+(?:\n(?![A-Z][a-z]+:)[^\n]+){0,5})\<close>, ignoring case
  \<^item> \<open>Requirements_211\<close>:
    \<^verbatim>\<open>Requirements?:?\s*([^\n]+(?:\n(?![A-Z][a-z]+:)[^\n]+){0,5})\<close>, ignoring case
\<close>

datatype pattern =
    Name_Contact | Contact_Section | Phone_Label | Fax_Number | Hours_Label | Weekday_Time
  | Requirements_Label | Address_211 | Phone_Paren_211 | Phone_Dash_211 | Tel_211 | Email_211
  | Hours_211 | Open_211 | Description_211 | Service_Description_211 | Eligibility_211
  | Requirements_211

type_synonym match = "nat \<Rightarrow> string"

type_synonym re_search = "pattern \<Rightarrow> string \<Rightarrow> match option"

text \<open>
  What the scrapers read of a parsed page: the text of \<open>soup.get_text()\<close>, the text of
  \<open>soup.get_text(separator='\n')\<close>, the text of the first \<open>h1\<close> and of the \<open>title\<close>
  elements when there are such, and the anchors that have an \<open>href\<close>, in document order,
  each with its \<open>href\<close>, its text and the text of its parent element. Fetching a page is
  a parameter \<open>fetch\<close>; \<open>None\<close> stands for an exception of the request.
\<close>

record link =
  href :: string
  link_text :: string
  parent_text :: "string option"

record page =
  page_text :: string
  page_text_lines :: string
  h1 :: "string option"
  title :: "string option"
  links :: "link list"

text \<open>
  The loop over the patterns of a field with a length guard: the first match whose
  stripped capture is shorter than \<open>cap\<close> is kept and ends the loop. \<open>grp\<close> gives the
  group that is read from a match of each pattern.
\<close>

fun cascade :: "re_search \<Rightarrow> (pattern \<Rightarrow> nat) \<Rightarrow> nat \<Rightarrow> pattern list \<Rightarrow> string \<Rightarrow> string option" where
  "cascade search grp cap [] text = None"
| "cascade search grp cap (pattern # rest) text =
     (case search pattern text of
        Some m \<Rightarrow>
          (let captured = strip (m (grp pattern)) in
           if length captured < cap then Some captured
           else cascade search grp cap rest text)
      | None \<Rightarrow> cascade search grp cap rest text)"

text \<open>The loop over the phone patterns of the 211 scraper: the first match ends it.\<close>

fun first_match :: "re_search \<Rightarrow> pattern list \<Rightarrow> string \<Rightarrow> string option" where
  "first_match search [] text = None"
| "first_match search (pattern # rest) text =
     (case search pattern text of
        Some m \<Rightarrow> Some (strip (m 1))
      | None \<Rightarrow> first_match search rest text)"

subsection \<open>\<open>FoodPantriesScraper\<close> of \<open>foodpantries-scraper.py\<close>\<close>

text \<open>
  The loop over the anchors, from the state in which \<open>email\<close> has the value \<open>em\<close> and
  \<open>website\<close> is \<open>None\<close>; it returns \<open>(email, website)\<close>. Setting the website ends it.
\<close>

fun scan_links :: "link list \<Rightarrow> string option \<Rightarrow> string option \<times> string option" where
  "scan_links [] em = (em, None)"
| "scan_links (l # rest) em =
     (let h = strip (href l) in
      if contains h ''mailto:'' then
        (let email_addr = strip (remove_all ''mailto:'' h) in
         if contains email_addr ''@'' \<and> \<not> truthy em
         then scan_links rest (Some email_addr)
         else scan_links rest em)
      else if startswith h ''http'' \<and> \<not> contains h ''foodpantries.org'' then
        (let text = lower (strip (link_text l));
             parent = (case parent_text l of Some t \<Rightarrow> strip t | None \<Rightarrow> []) in
         if list_ex (contains text) [''website'', ''visit'', ''home'', ''more info'']
         then (em, Some h)
         else if contains (lower parent) ''website'' then (em, Some h)
         else scan_links rest em)
      else scan_links rest em)"

definition scrape_pantry_details ::
  "re_search \<Rightarrow> (string \<Rightarrow> page option) \<Rightarrow> string \<Rightarrow> Pantry option" where
  "scrape_pantry_details search fetch pantry_url =
     (case fetch pantry_url of
        None \<Rightarrow> None
      | Some soup \<Rightarrow>
          (let text = page_text soup;
               name_match = search Name_Contact text;
               found_name = map_option (\<lambda>m. strip (m 1)) name_match
           in if \<not> truthy found_name then None
              else
                (let contact_section = search Contact_Section text;
                     phone_match = search Phone_Label text;
                     fax_match = search Fax_Number text;
                     found_hours = cascade search (\<lambda>p. 1) 500 [Hours_Label] text;
                     req_match = search Requirements_Label text;
                     found_requirements =
                       (case req_match of
                          Some m \<Rightarrow> (let req_text = strip (m 1) in
                                     if length req_text < 500 then Some req_text else None)
                        | None \<Rightarrow> None);
                     found = scan_links (links soup) None
                 in Some \<lparr> name = py_str found_name,
                           address = map_option (\<lambda>m. strip (m 1)) contact_section,
                           city = map_option (\<lambda>m. strip (m 2)) contact_section,
                           state = map_option (\<lambda>m. m 3) contact_section,
                           zip_code = map_option (\<lambda>m. m 4) contact_section,
                           phone = map_option (\<lambda>m. strip (m 1)) phone_match,
                           fax = map_option (\<lambda>m. strip (m 1)) fax_match,
                           email = fst found,
                           website = snd found,
                           hours = found_hours,
                           description = None,
                           requirements = found_requirements,
                           source_url = Some pantry_url,
                           source_site = Some ''foodpantries.org'' \<rparr>)))"

subsection \<open>\<open>Network211Scraper\<close>\<close>

text \<open>The loop over the anchors that looks for a website.\<close>

fun find_website_211 :: "link list \<Rightarrow> string option" where
  "find_website_211 [] = None"
| "find_website_211 (l # rest) =
     (let h = href l in
      if startswith h ''http'' \<and> \<not> contains h ''communityos.org'' \<and> \<not> contains h ''211'' then
        (let text = lower (strip (link_text l)) in
         if contains text ''website'' \<or> contains text ''visit'' \<or> contains text ''home''
         then Some h
         else find_website_211 rest)
      else find_website_211 rest)"

text \<open>\<open>s.split('|')[0]\<close>: the text before the first bar.\<close>

definition before_bar :: "string \<Rightarrow> string" where
  "before_bar s = takeWhile (\<lambda>c. c \<noteq> CHR ''|'') s"

definition scrape_pantry_detail ::
  "string \<Rightarrow> re_search \<Rightarrow> (string \<Rightarrow> page option) \<Rightarrow> string \<Rightarrow> Pantry option" where
  "scrape_pantry_detail region search fetch url =
     (case fetch url of
        None \<Rightarrow> None
      | Some soup \<Rightarrow>
          (let text = page_text_lines soup;
               h1_name = map_option strip (h1 soup);
               found_name =
                 (if \<not> truthy h1_name
                  then (case title soup of
                          Some t \<Rightarrow> Some (strip (before_bar (strip t)))
                        | None \<Rightarrow> h1_name)
                  else h1_name)
           in if \<not> truthy found_name then None
              else
                (let addr_match = search Address_211 text;
                     found_phone =
                       first_match search [Phone_Paren_211, Phone_Dash_211, Tel_211] text;
                     email_match = search Email_211 text;
                     found_website = find_website_211 (links soup);
                     found_hours = cascade search (\<lambda>p. 1) 500 [Hours_211, Open_211] text;
                     found_description =
                       cascade search (\<lambda>p. 1) 1000 [Description_211, Service_Description_211] text;
                     found_requirements =
                       cascade search (\<lambda>p. 1) 500 [Eligibility_211, Requirements_211] text
                 in Some \<lparr> name = py_str found_name,
                           address = map_option (\<lambda>m. strip (m 1)) addr_match,
                           city = map_option (\<lambda>m. strip (m 2)) addr_match,
                           state = map_option (\<lambda>m. m 3) addr_match,
                           zip_code = map_option (\<lambda>m. m 4) addr_match,
                           phone = found_phone,
                           fax = None,
                           email = map_option (\<lambda>m. m 0) email_match,
                           website = found_website,
                           hours = found_hours,
                           description = found_description,
                           requirements = found_requirements,
                           source_url = Some url,
                           source_site = Some (''211 '' @ region) \<rparr>)))"

subsection \<open>\<open>FoodPantriesScraper\<close> of \<open>flask-scraper-backend.py\<close>\<close>

text \<open>
  The dictionary \<open>data\<close> that this scraper fills, key by key (the key \<open>k\<close> is the field
  \<open>d_k\<close>), and \<open>geo\<close> for the keys that \<open>data.update(geo_data)\<close> adds to it, with the
  geocoder's answer of type \<open>'g\<close> kept as it is.
\<close>

record 'g pantry_data =
  d_url :: string
  d_name :: "string option"
  d_address :: "string option"
  d_city :: "string option"
  d_state :: "string option"
  d_zip :: "string option"
  d_phone :: "string option"
  d_fax :: "string option"
  d_email :: "string option"
  d_website :: "string option"
  d_hours :: "string option"
  d_description :: "string option"
  d_requirements :: "string option"
  d_scraped_at :: string
  geo :: "'g option"

text \<open>
  The group read from a match of an hours pattern: 0 when the lower-cased pattern
  contains "day", which is so for \<open>Weekday_Time\<close> only, and 1 otherwise.
\<close>

definition flask_hours_group :: "pattern \<Rightarrow> nat" where
  "flask_hours_group p = (if p = Weekday_Time then 0 else 1)"

text \<open>The loop over the anchors, on the pair \<open>(data['email'], data['website'])\<close>.\<close>

fun flask_scan_links ::
  "link list \<Rightarrow> string option \<times> string option \<Rightarrow> string option \<times> string option" where
  "flask_scan_links [] found = found"
| "flask_scan_links (l # rest) found =
     (let h = href l in
      if contains h ''mailto:'' then
        (let email_addr = strip (remove_all ''mailto:'' h) in
         if contains email_addr ''@'' \<and> \<not> truthy (fst found)
         then flask_scan_links rest (Some email_addr, snd found)
         else flask_scan_links rest found)
      else if startswith h ''http'' \<and> \<not> contains h ''foodpantries.org'' then
        (if \<not> truthy (snd found) \<or> length h < length (py_str (snd found))
         then flask_scan_links rest (fst found, Some h)
         else flask_scan_links rest found)
      else flask_scan_links rest found)"

definition flask_scrape_pantry_details ::
  "re_search \<Rightarrow> (string \<Rightarrow> page option) \<Rightarrow> string \<Rightarrow> string \<Rightarrow> 'g pantry_data option" where
  "flask_scrape_pantry_details search fetch now pantry_url =
     (case fetch pantry_url of
        None \<Rightarrow> None
      | Some soup \<Rightarrow>
          (let text = page_text soup;
               name_match = search Name_Contact text;
               contact_section = search Contact_Section text;
               phone_match = search Phone_Label text;
               fax_match = search Fax_Number text;
               found_hours = cascade search flask_hours_group 500 [Hours_Label, Weekday_Time] text;
               req_match = search Requirements_Label text;
               found_requirements =
                 (case req_match of
                    Some m \<Rightarrow> (let req_text = strip (m 1) in
                               if length req_text < 500 then Some req_text else None)
                  | None \<Rightarrow> None);
               found = flask_scan_links (links soup) (None, None)
           in Some \<lparr> d_url = pantry_url,
                     d_name = map_option (\<lambda>m. strip (m 1)) name_match,
                     d_address = map_option (\<lambda>m. strip (m 1)) contact_section,
                     d_city = map_option (\<lambda>m. strip (m 2)) contact_section,
                     d_state = map_option (\<lambda>m. m 3) contact_section,
                     d_zip = map_option (\<lambda>m. m 4) contact_section,
                     d_phone = map_option (\<lambda>m. strip (m 1)) phone_match,
                     d_fax = map_option (\<lambda>m. strip (m 1)) fax_match,
                     d_email = fst found,
                     d_website = snd found,
                     d_hours = found_hours,
                     d_description = None,
                     d_requirements = found_requirements,
                     d_scraped_at = now,
                     geo = None \<rparr>))"

section \<open>The background job of \<open>flask-scraper-backend.py\<close>\<close>

text \<open>
  The global dictionary \<open>scraping_state\<close>. The key \<open>total\<close> is the field \<open>n_total\<close>;
  \<open>stop_event\<close> is the flag of the \<open>threading.Event\<close>. The counters are lengths and
  positions, hence natural numbers.
\<close>

record 'g job =
  is_scraping :: bool
  current :: nat
  n_total :: nat
  status :: string
  data :: "'g pantry_data list"
  stop_event :: bool

text \<open>
  The JSON body of a start request: \<open>data.get('state')\<close>, \<open>data.get('limit')\<close> and
  \<open>data.get('geocode', True)\<close>.
\<close>

record scrape_request =
  req_state :: "string option"
  req_limit :: "int option"
  req_geocode :: bool

text \<open>A JSON response: success with its message, or failure with its error and status.\<close>

datatype response = Success string | Failure string nat

text \<open>The arguments of the thread that \<open>start_scrape\<close> starts.\<close>

record thread_args =
  arg_state :: string
  arg_limit :: "int option"
  arg_geocode :: bool

text \<open>
  \<open>start_scrape\<close> returns its response, the new \<open>scraping_state\<close> and, when it starts
  the thread, the thread's arguments. It does not wait for the thread.
\<close>

definition start_scrape ::
  "'g job \<Rightarrow> scrape_request \<Rightarrow> response \<times> 'g job \<times> thread_args option" where
  "start_scrape st req =
     (if is_scraping st then (Failure ''Scraping already in progress'' 400, st, None)
      else if \<not> truthy (req_state req) then (Failure ''State is required'' 400, st, None)
      else (Success ''Scraping started'',
            st\<lparr>is_scraping := True, current := 0, n_total := 0, status := ''Starting...'',
               data := []\<rparr>,
            Some \<lparr>arg_state = py_str (req_state req), arg_limit = req_limit req,
                  arg_geocode = req_geocode req\<rparr>))"

definition stop_scrape :: "'g job \<Rightarrow> response \<times> 'g job" where
  "stop_scrape st = (Success ''Stop signal sent'', st\<lparr>stop_event := True\<rparr>)"

text \<open>
  What \<open>scrape_in_background\<close> calls outside itself: \<open>re.search\<close>, the page of a URL,
  the clock read for the \<open>i\<close>-th page, the states that \<open>get_state_urls\<close> finds (name to
  URL), the pantry URLs that \<open>scrape_state_page\<close> finds, and \<open>geocode_address\<close>. The
  last three catch their own exceptions, as \<open>scrape_pantry_details\<close> does.
\<close>

record 'g env =
  env_search :: re_search
  env_fetch :: "string \<Rightarrow> page option"
  env_now :: "nat \<Rightarrow> string"
  get_state_urls :: "string \<rightharpoonup> string"
  scrape_state_page :: "string \<Rightarrow> string list"
  geocode_address :: "string \<Rightarrow> string \<Rightarrow> string \<Rightarrow> string option \<Rightarrow> 'g option"

text \<open>
  The places of the thread in \<open>scrape_in_background\<close>: before \<open>stop_event.clear()\<close>;
  after it and the first status, before the discovery of the URLs; at the head of the loop, before the test of the stop
  event for the page of index \<open>i\<close> (from 0); after \<open>current\<close> and \<open>status\<close> are set,
  before the page of index \<open>i\<close> is scraped; after the loop; and at the end.
\<close>

datatype place = Begin | Discover | Check nat | Scrape nat string | After_Loop | Finished

text \<open>
  A configuration: the shared dictionary, and of the thread its arguments, its place and
  its list \<open>pantry_urls\<close>. \<open>visited\<close> is not in the source: it records the indices of
  the pages that have been passed to \<open>scrape_pantry_details\<close>.
\<close>

record 'g config =
  job :: "'g job"
  args :: thread_args
  pc :: place
  pantry_urls :: "string list"
  visited :: "nat list"

text \<open>\<open>xs[:n]\<close> for an integer \<open>n\<close>: a negative \<open>n\<close> counts from the end.\<close>

definition slice_to :: "int \<Rightarrow> 'a list \<Rightarrow> 'a list" where
  "slice_to n xs = (if 0 \<le> n then take (nat n) xs else take (length xs - nat (- n)) xs)"

definition double_quote :: string where
  "double_quote = [char_of (34 :: nat)]"

text \<open>The body of the loop after the test of the stop event, for the page at \<open>url\<close>.\<close>

definition scrape_one :: "'g env \<Rightarrow> bool \<Rightarrow> nat \<Rightarrow> nat \<Rightarrow> string \<Rightarrow> 'g job \<Rightarrow> 'g job" where
  "scrape_one e with_geocoder i n url st =
     (case flask_scrape_pantry_details (env_search e) (env_fetch e) (env_now e i) url of
        None \<Rightarrow> st
      | Some d \<Rightarrow>
          if with_geocoder \<and> truthy (d_address d) \<and> truthy (d_city d) \<and> truthy (d_state d)
          then st\<lparr>status := ''Geocoding '' @ str_nat (i + 1) @ ''/'' @ str_nat n @ '' (FREE)...'',
                  data := data st @
                    [d\<lparr>geo := geocode_address e (py_str (d_address d)) (py_str (d_city d))
                                (py_str (d_state d)) (d_zip d)\<rparr>]\<rparr>
          else st\<lparr>data := data st @ [d]\<rparr>)"

text \<open>One step of the thread, from one place to the next.\<close>

definition scrape_in_background_step :: "'g env \<Rightarrow> 'g config \<Rightarrow> 'g config" where
  "scrape_in_background_step e c =
     (let st = job c in
      case pc c of
        Begin \<Rightarrow>
          c\<lparr>job := st\<lparr>stop_event := False, status := ''Fetching state information...''\<rparr>,
            pc := Discover\<rparr>
      | Discover \<Rightarrow>
          (case get_state_urls e (arg_state (args c)) of
             None \<Rightarrow>
               c\<lparr>job := st\<lparr>status := ''State '' @ double_quote @ arg_state (args c)
                                     @ double_quote @ '' not found'',
                             is_scraping := False\<rparr>,
                 pc := Finished\<rparr>
           | Some state_url \<Rightarrow>
               (let found = scrape_state_page e state_url in
                if found = [] then
                  c\<lparr>job := st\<lparr>status := ''No pantries found'', is_scraping := False\<rparr>,
                    pc := Finished\<rparr>
                else
                  (let urls = (case arg_limit (args c) of
                                 None \<Rightarrow> found
                               | Some n \<Rightarrow> if n \<noteq> 0 then slice_to n found else found)
                   in c\<lparr>job := st\<lparr>status := ''Finding pantries in '' @ arg_state (args c) @ ''...'',
                                   n_total := length urls, data := []\<rparr>,
                        pantry_urls := urls, pc := Check 0\<rparr>)))
      | Check i \<Rightarrow>
          (case drop i (pantry_urls c) of
             [] \<Rightarrow> c\<lparr>pc := After_Loop\<rparr>
           | url # rest \<Rightarrow>
               if stop_event st
               then c\<lparr>job := st\<lparr>status := ''Stopped by user''\<rparr>, pc := After_Loop\<rparr>
               else c\<lparr>job := st\<lparr>current := i + 1,
                               status := ''Scraping pantry '' @ str_nat (i + 1) @ '' of ''
                                 @ str_nat (length (pantry_urls c)) @ ''...''\<rparr>,
                      pc := Scrape i url\<rparr>)
      | Scrape i url \<Rightarrow>
          c\<lparr>job := scrape_one e (arg_geocode (args c)) i (length (pantry_urls c)) url st,
            pc := Check (i + 1), visited := visited c @ [i]\<rparr>
      | After_Loop \<Rightarrow>
          c\<lparr>job := (if \<not> stop_event st
                     then st\<lparr>status := ''Completed! Scraped '' @ str_nat (length (data st))
                                          @ '' pantries''\<rparr>
                     else st)\<lparr>is_scraping := False\<rparr>,
            pc := Finished\<rparr>
      | Finished \<Rightarrow> c)"

text \<open>
  What happens to a configuration: the thread takes a step, or a request to
  \<open>/api/stop\<close> is served. A schedule is a list of such events.
\<close>

datatype event = Work | Stop

definition event_step :: "'g env \<Rightarrow> event \<Rightarrow> 'g config \<Rightarrow> 'g config" where
  "event_step e ev c =
     (case ev of
        Work \<Rightarrow> scrape_in_background_step e c
      | Stop \<Rightarrow> c\<lparr>job := snd (stop_scrape (job c))\<rparr>)"

fun run :: "'g env \<Rightarrow> event list \<Rightarrow> 'g config \<Rightarrow> 'g config" where
  "run e [] c = c"
| "run e (ev # evs) c = run e evs (event_step e ev c)"

text \<open>The configuration in which the thread that \<open>start_scrape\<close> started begins.\<close>

definition thread_start :: "'g job \<Rightarrow> thread_args \<Rightarrow> 'g config" where
  "thread_start st a = \<lparr>job = st, args = a, pc = Begin, pantry_urls = [], visited = []\<rparr>"

section \<open>Notions used in the properties\<close>

subsection \<open>Fingerprints and the store\<close>

text \<open>
  The specification's reading of an optional field for comparison: an absent value is
  taken as the empty string.
\<close>

definition text_or_empty :: "string option \<Rightarrow> string" where
  "text_or_empty v = (case v of None \<Rightarrow> [] | Some s \<Rightarrow> s)"

text \<open>Two records agree on the four parts their fingerprints are made of.\<close>

definition same_identity :: "Pantry \<Rightarrow> Pantry \<Rightarrow> bool" where
  "same_identity a b =
     (name_norm a = name_norm b \<and> addr_norm a = addr_norm b \<and>
      phone_norm a = phone_norm b \<and> zip_or_empty a = zip_or_empty b)"

text \<open>
  Along a sequence of \<open>add_pantry\<close> calls, every record that meets a stored record under
  its key agrees with it on the four parts.
\<close>

fun collisions_agree :: "DeduplicatedPantryDatabase \<Rightarrow> Pantry list \<Rightarrow> bool" where
  "collisions_agree db [] = True"
| "collisions_agree db (p # ps) =
     ((case pantries db (get_fingerprint p) of None \<Rightarrow> True
       | Some stored \<Rightarrow> same_identity stored p) \<and>
      (case add_pantry db p of Inl e \<Rightarrow> False
       | Inr (is_new, db') \<Rightarrow> collisions_agree db' ps))"

text \<open>The set of fingerprints is the key set of the dictionary, which is finite.\<close>

definition db_wf :: "DeduplicatedPantryDatabase \<Rightarrow> bool" where
  "db_wf db = (fingerprints db = dom (pantries db) \<and> finite (dom (pantries db)))"

text \<open>Every stored record hashes to the key it is stored under.\<close>

definition keys_match :: "DeduplicatedPantryDatabase \<Rightarrow> bool" where
  "keys_match db = (\<forall>k r. pantries db k = Some r \<longrightarrow> get_fingerprint r = k)"

subsection \<open>Length guard\<close>



subsection \<open>Contact links\<close>

text \<open>
  The tests that the loop of \<open>foodpantries-scraper.py\<close> over the anchors makes on one
  anchor: it is a mail link; the address a mail link gives; it is a mail link whose
  address has an at sign; it is a link that is taken as the website.
\<close>

definition is_mailto :: "link \<Rightarrow> bool" where
  "is_mailto l = contains (strip (href l)) ''mailto:''"

definition mail_address :: "link \<Rightarrow> string" where
  "mail_address l = strip (remove_all ''mailto:'' (strip (href l)))"

definition email_link :: "link \<Rightarrow> bool" where
  "email_link l = (is_mailto l \<and> contains (mail_address l) ''@'')"

definition website_link :: "link \<Rightarrow> bool" where
  "website_link l =
     (\<not> is_mailto l \<and> startswith (strip (href l)) ''http'' \<and>
      \<not> contains (strip (href l)) ''foodpantries.org'' \<and>
      (list_ex (contains (lower (strip (link_text l))))
         [''website'', ''visit'', ''home'', ''more info'']
       \<or> contains (lower (strip (text_or_empty (parent_text l)))) ''website''))"

text \<open>The same for the loop of \<open>flask-scraper-backend.py\<close>, which does not strip the \<open>href\<close>.\<close>

definition flask_mail_address :: "link \<Rightarrow> string" where
  "flask_mail_address l = strip (remove_all ''mailto:'' (href l))"

definition flask_email_link :: "link \<Rightarrow> bool" where
  "flask_email_link l = (contains (href l) ''mailto:'' \<and> contains (flask_mail_address l) ''@'')"

text \<open>
  The choice of the contact links in the words of the specification. A link is external
  when it is an \<open>http\<close> link that does not name the site (the test of the scrapers); it
  carries an indicator when its text or the text around it contains "website", "visit"
  or "home"; the website is the first external link with an indicator, the email is the
  address of the first mail link.
\<close>

definition spec_external :: "link \<Rightarrow> bool" where
  "spec_external l = (startswith (href l) ''http'' \<and> \<not> contains (href l) ''foodpantries.org'')"

definition spec_indicator :: "link \<Rightarrow> bool" where
  "spec_indicator l =
     list_ex (\<lambda>w. contains (lower (link_text l)) w \<or>
                  contains (lower (text_or_empty (parent_text l))) w)
       [''website'', ''visit'', ''home'']"

definition spec_website :: "link list \<Rightarrow> string option" where
  "spec_website ls = map_option href (find (\<lambda>l. spec_external l \<and> spec_indicator l) ls)"

definition spec_email :: "link list \<Rightarrow> string option" where
  "spec_email ls =
     map_option (\<lambda>l. strip (remove_all ''mailto:'' (href l)))
       (find (\<lambda>l. contains (href l) ''mailto:'') ls)"

subsection \<open>The thread after a stop request\<close>







subsection \<open>Sample records\<close>

definition community_pantry :: Pantry where
  "community_pantry =
     (new_Pantry ''  Community Pantry '')
       \<lparr>address := Some ''123 Elm St'', zip_code := Some ''62701'',
        phone := Some ''(555) 123-4567''\<rparr>"

definition community_pantry_211 :: Pantry where
  "community_pantry_211 =
     (new_Pantry ''community pantry'')
       \<lparr>address := Some '' 123 ELM ST'', zip_code := Some ''62701'',
        phone := Some ''555-123-4567'', website := Some ''http://x.org''\<rparr>"

definition with_website :: Pantry where
  "with_website = (new_Pantry ''Pantry'')\<lparr>website := Some ''http://x.org''\<rparr>"

definition with_phone :: Pantry where
  "with_phone = (new_Pantry ''Pantry'')\<lparr>phone := Some ''555-0100''\<rparr>"

definition empty_address :: Pantry where
  "empty_address = (new_Pantry ''Pantry'')\<lparr>address := Some []\<rparr>"

definition bar_in_name :: Pantry where
  "bar_in_name = (new_Pantry ''a|b'')\<lparr>address := Some ''c''\<rparr>"

definition bar_in_address :: Pantry where
  "bar_in_address = (new_Pantry ''a'')\<lparr>address := Some ''b|c''\<rparr>"

subsection \<open>Sample pages and jobs\<close>

text \<open>A page with no contact block, and the search on it: no pattern matches.\<close>

definition plain_page :: page where
  "plain_page =
     \<lparr>page_text = ''Food help near you'', page_text_lines = ''Food help near you'',
      h1 = None, title = None, links = []\<rparr>"

definition no_match :: re_search where
  "no_match = (\<lambda>p t. None)"

definition plain_url :: string where
  "plain_url = ''https://www.foodpantries.org/li/p1''"

definition plain_time :: string where
  "plain_time = ''2025-01-01T00:00:00''"

definition nameless_record :: "unit pantry_data" where
  "nameless_record =
     \<lparr>d_url = plain_url, d_name = None, d_address = None, d_city = None, d_state = None,
      d_zip = None, d_phone = None, d_fax = None, d_email = None, d_website = None,
      d_hours = None, d_description = None, d_requirements = None,
      d_scraped_at = plain_time, geo = None\<rparr>"

text \<open>
  A page with a name line and four anchors, and the search on its text: only the name
  pattern matches.
\<close>

definition new_line :: string where
  "new_line = [char_of (10 :: nat)]"

definition links_page :: page where
  "links_page =
     \<lparr>page_text = ''Community Pantry'' @ new_line @ ''Contact Information'',
      page_text_lines = ''Community Pantry'' @ new_line @ ''Contact Information'',
      h1 = Some ''Community Pantry'', title = None,
      links =
        [\<lparr>href = ''mailto:office'', link_text = ''Office'', parent_text = Some ''Office''\<rparr>,
         \<lparr>href = ''mailto:info@pantry.org'', link_text = ''Email us'',
          parent_text = Some ''Email us''\<rparr>,
         \<lparr>href = ''http://donate.example.com'', link_text = ''More info'',
          parent_text = Some ''More info''\<rparr>,
         \<lparr>href = ''http://pantry.example.org'', link_text = ''Visit our website'',
          parent_text = Some ''Visit our website''\<rparr>]\<rparr>"

definition named_search :: re_search where
  "named_search =
     (\<lambda>p t. if p = Name_Contact
            then Some (\<lambda>i. if i = 0 then ''Community Pantry'' @ new_line @ ''Contact Information''
                           else ''Community Pantry'')
            else None)"




text \<open>
  A site with the state Ohio and ten pantry pages like \<open>plain_page\<close>, a job that has
  run before, a request for Ohio and one that names no state.
\<close>

definition quiet_env :: "unit env" where
  "quiet_env =
     \<lparr>env_search = no_match,
      env_fetch = (\<lambda>u. Some plain_page),
      env_now = (\<lambda>i. plain_time),
      get_state_urls = [''Ohio'' \<mapsto> ''https://www.foodpantries.org/st/ohio''],
      scrape_state_page =
        (\<lambda>u. map (\<lambda>k. ''https://www.foodpantries.org/li/p'' @ str_nat k) [1..<11]),
      geocode_address = (\<lambda>a b c d. None)\<rparr>"

definition idle_job :: "unit job" where
  "idle_job =
     \<lparr>is_scraping = False, current = 1, n_total = 1,
      status = ''Completed! Scraped 1 pantries'', data = [nameless_record],
      stop_event = False\<rparr>"

definition ohio_request :: scrape_request where
  "ohio_request = \<lparr>req_state = Some ''Ohio'', req_limit = None, req_geocode = True\<rparr>"

definition empty_request :: scrape_request where
  "empty_request = \<lparr>req_state = None, req_limit = None, req_geocode = True\<rparr>"

definition ohio_args :: thread_args where
  "ohio_args = \<lparr>arg_state = ''Ohio'', arg_limit = None, arg_geocode = True\<rparr>"

definition started_job :: "unit job" where
  "started_job = fst (snd (start_scrape idle_job ohio_request))"

definition ohio_thread :: "unit config" where
  "ohio_thread = thread_start started_job ohio_args"




text \<open>A stop request served while the last page is scraped.\<close>

definition late_stop :: "unit config" where
  "late_stop = run quiet_env (replicate 22 Work @ [Stop, Work, Work, Work]) ohio_thread"

section \<open>Properties of the store\<close>

subsection \<open>The digest on test vectors\<close>

lemma md5_empty: "md5_hexdigest (encode []) = ''d41d8cd98f00b204e9800998ecf8427e''"
  by code_simp

lemma md5_abc: "md5_hexdigest (encode ''abc'') = ''900150983cd24fb0d6963f7d28e17f72''"
  by code_simp

lemma md5_two_blocks:
  "md5_hexdigest (encode (concat (replicate 8 ''1234567890'')))
     = ''57edf4a22be3c955ac49da2e2107b67a''"
  by code_simp

lemma md5_e_acute: "md5_hexdigest (encode [char_of (233 :: nat)]) = ''66ddcd97cfdeabb2f6fb8a999b4bc76f''"
  by code_simp

subsection \<open>Merging\<close>

lemma merge_val_idem: "merge_val v v = v"
  by (simp add: merge_val_def)

lemma merge_name_idem: "merge_name v v = v"
  by (simp add: merge_name_def)

lemma merge_with_idem: "merge_with r r = r"
  by (simp add: merge_with_def merge_val_idem merge_name_idem)

lemma merge_val_absorb: "merge_val (merge_val s v) v = merge_val s v"
  by (auto simp add: merge_val_def)

lemma merge_name_absorb: "merge_name (merge_name s v) v = merge_name s v"
  by (auto simp add: merge_name_def)

lemma merge_with_absorb: "merge_with (merge_with s r) r = merge_with s r"
  by (simp add: merge_with_def merge_val_absorb merge_name_absorb)

lemma merge_val_cases: "merge_val x y = x \<or> merge_val x y = y"
  by (simp add: merge_val_def)

lemma merge_name_cases: "merge_name x y = x \<or> merge_name x y = y"
  by (simp add: merge_name_def)

lemma merge_val_spec:
  "merge_val x y = (if x = Some [] \<and> y = None then None else spec_merge x y)"
  by (cases x; cases y) (auto simp add: merge_val_def spec_merge_def truthy_def py_str_def)

lemma merge_name_longer:
  "merge_name x y = (if length y > length x then y else x)"
  by (auto simp add: merge_name_def)

lemma optional_field_merge:
  "f \<in> set optional_fields \<Longrightarrow> f (merge_with a b) = merge_val (f a) (f b)"
  unfolding optional_fields_def
  by (auto simp add: merge_with_def)

text \<open>
  Claim C3, as amended. For every optional field, \<open>a.merge_with(b)\<close> keeps the longer of
  the two values when both are present (the value of \<open>a\<close> on a tie), the present value
  when exactly one is present, and absent when neither is, with one exception: when the
  value of \<open>a\<close> is the empty string and that of \<open>b\<close> is absent, the result is absent.
  The name of the result is the longer of the two names, that of \<open>a\<close> on a tie. Merging
  a record with phone "555-0100" and no website into one with website "http://x.org"
  and no phone gives both.
\<close>

theorem merge_with_policy:
  "(\<forall>f \<in> set optional_fields.
      f (merge_with a b) = (if f a = Some [] \<and> f b = None then None else spec_merge (f a) (f b)))
   \<and> name (merge_with a b) = (if length (name b) > length (name a) then name b else name a)
   \<and> (website a = Some ''http://x.org'' \<and> phone a = None \<and>
      website b = None \<and> phone b = Some ''555-0100'' \<longrightarrow>
      website (merge_with a b) = Some ''http://x.org'' \<and>
      phone (merge_with a b) = Some ''555-0100'')"
proof (intro conjI ballI impI)
  fix f :: "Pantry \<Rightarrow> string option" assume "f \<in> set optional_fields"
  then have "f (merge_with a b) = merge_val (f a) (f b)"
    by (rule optional_field_merge)
  then show "f (merge_with a b) =
      (if f a = Some [] \<and> f b = None then None else spec_merge (f a) (f b))"
    by (simp only: merge_val_spec)
next
  show "name (merge_with a b) = (if length (name b) > length (name a) then name b else name a)"
    by (simp add: merge_with_def merge_name_longer)
next
  assume "website a = Some ''http://x.org'' \<and> phone a = None \<and>
      website b = None \<and> phone b = Some ''555-0100''"
  then show "website (merge_with a b) = Some ''http://x.org''"
    by (simp add: merge_with_def merge_val_def truthy_def)
next
  assume "website a = Some ''http://x.org'' \<and> phone a = None \<and>
      website b = None \<and> phone b = Some ''555-0100''"
  then show "phone (merge_with a b) = Some ''555-0100''"
    by (simp add: merge_with_def merge_val_def truthy_def)
qed

theorem merge_with_policy_witness:
  "phone \<in> set optional_fields \<and> website \<in> set optional_fields \<and>
   phone (merge_with with_website with_phone) = Some ''555-0100'' \<and>
   website (merge_with with_website with_phone) = Some ''http://x.org'' \<and>
   name (merge_with with_website with_phone) = ''Pantry''"
proof -
  have p: "phone \<in> set optional_fields" and w: "website \<in> set optional_fields"
    by (simp_all add: optional_fields_def)
  have a: "website with_website = Some ''http://x.org'' \<and> phone with_website = None \<and>
      website with_phone = None \<and> phone with_phone = Some ''555-0100''"
    by (simp add: with_website_def with_phone_def new_Pantry_def)
  have n: "name with_website = ''Pantry''" "name with_phone = ''Pantry''"
    by (simp_all add: with_website_def with_phone_def new_Pantry_def)
  from merge_with_policy [of with_website with_phone] a n
  have "website (merge_with with_website with_phone) = Some ''http://x.org''"
    and "phone (merge_with with_website with_phone) = Some ''555-0100''"
    and "name (merge_with with_website with_phone) = ''Pantry''"
    by simp_all
  with p w show ?thesis by simp
qed

text \<open>
  The claim as stated fails: a stored record whose address is the empty string, merged
  with a record with no address, loses the value that was present.
\<close>

theorem merge_with_policy_counterexample:
  "address (merge_with empty_address (new_Pantry ''Pantry''))
     \<noteq> spec_merge (address empty_address) (address (new_Pantry ''Pantry''))"
  by (simp add: merge_with_def merge_val_def truthy_def spec_merge_def empty_address_def
      new_Pantry_def)

subsection \<open>Adding to the store\<close>

lemma add_pantry_new:
  "get_fingerprint p \<notin> fingerprints db \<Longrightarrow>
   add_pantry db p = Inr (True, db\<lparr>pantries := (pantries db)(get_fingerprint p \<mapsto> p),
                         fingerprints := insert (get_fingerprint p) (fingerprints db)\<rparr>)"
  by (simp add: add_pantry_def Let_def)

lemma add_pantry_old:
  "get_fingerprint p \<in> fingerprints db \<Longrightarrow> pantries db (get_fingerprint p) = Some e \<Longrightarrow>
   add_pantry db p =
     Inr (False, db\<lparr>pantries := (pantries db)(get_fingerprint p \<mapsto> merge_with e p)\<rparr>)"
  by (simp add: add_pantry_def Let_def)

lemma add_pantry_wf:
  "db_wf db \<Longrightarrow> add_pantry db p = Inr (b, db') \<Longrightarrow> db_wf db'"
  by (auto simp add: add_pantry_def db_wf_def Let_def split: if_splits option.splits)

lemma add_all_wf:
  "db_wf db \<Longrightarrow> add_all db ps = Inr db' \<Longrightarrow> db_wf db'"
proof (induction ps arbitrary: db)
  case Nil
  then show ?case by simp
next
  case (Cons p ps)
  then show ?case
    by (auto split: sum.splits dest: add_pantry_wf)
qed

lemma init_wf: "db_wf init_db"
  by (simp add: db_wf_def init_db_def)

lemma reachable_wf: "add_all init_db ps = Inr db \<Longrightarrow> db_wf db"
  using add_all_wf [OF init_wf] .

lemma add_pantry_cases:
  assumes "db_wf db"
  shows "add_pantry db p =
     (case pantries db (get_fingerprint p) of
        None \<Rightarrow> Inr (True, db\<lparr>pantries := (pantries db)(get_fingerprint p \<mapsto> p),
                             fingerprints := insert (get_fingerprint p) (fingerprints db)\<rparr>)
      | Some stored \<Rightarrow>
          Inr (False, db\<lparr>pantries := (pantries db)(get_fingerprint p \<mapsto> merge_with stored p)\<rparr>))"
proof (cases "pantries db (get_fingerprint p)")
  case None
  with assms have "get_fingerprint p \<notin> fingerprints db" by (auto simp add: db_wf_def)
  with None show ?thesis by (simp add: add_pantry_new)
next
  case (Some e)
  with assms have "get_fingerprint p \<in> fingerprints db" by (auto simp add: db_wf_def)
  with Some show ?thesis by (simp add: add_pantry_old)
qed

text \<open>Every sequence of calls on the empty store runs to its end: no call raises.\<close>

lemma add_all_total: "db_wf db \<Longrightarrow> \<exists>db'. add_all db ps = Inr db'"
proof (induction ps arbitrary: db)
  case Nil
  then show ?case by simp
next
  case (Cons p ps)
  obtain b db1 where a: "add_pantry db p = Inr (b, db1)"
    using add_pantry_cases [OF Cons.prems, of p] by (auto split: option.splits)
  with Cons.prems have "db_wf db1" by (blast intro: add_pantry_wf)
  then obtain db' where "add_all db1 ps = Inr db'" using Cons.IH by blast
  with a show ?case by simp
qed

lemma community_same: "same_identity community_pantry community_pantry_211"
  by code_simp

lemma community_fp: "get_fingerprint community_pantry_211 = get_fingerprint community_pantry"
  using community_same
  by (simp add: same_identity_def get_fingerprint_def fingerprint_str_def)

text \<open>
  Claim C1. On every store reached from the empty one by \<open>add_pantry\<close> calls,
  \<open>add_pantry(p)\<close> computes the fingerprint of \<open>p\<close>; when no record is stored under it,
  \<open>p\<close> is inserted there and the call returns true; otherwise the stored record is
  replaced by its merge with \<open>p\<close> and the call returns false. The call never raises,
  the keys are again the set of fingerprints, only the entry of that fingerprint
  changes, and the number of records grows by one exactly when the call returns true.
\<close>

theorem add_pantry_inserts_or_merges:
  assumes "add_all init_db ps = Inr db"
  shows "add_pantry db p =
     (case pantries db (get_fingerprint p) of
        None \<Rightarrow> Inr (True, db\<lparr>pantries := (pantries db)(get_fingerprint p \<mapsto> p),
                             fingerprints := insert (get_fingerprint p) (fingerprints db)\<rparr>)
      | Some stored \<Rightarrow>
          Inr (False, db\<lparr>pantries := (pantries db)(get_fingerprint p \<mapsto> merge_with stored p)\<rparr>))
    \<and> (\<exists>is_new db'. add_pantry db p = Inr (is_new, db') \<and>
          is_new = (get_fingerprint p \<notin> fingerprints db) \<and>
          fingerprints db' = dom (pantries db') \<and>
          dom (pantries db') = insert (get_fingerprint p) (dom (pantries db)) \<and>
          total_records db' = total_records db + (if is_new then 1 else 0) \<and>
          (\<forall>k. k \<noteq> get_fingerprint p \<longrightarrow> pantries db' k = pantries db k))"
proof -
  have wf: "db_wf db" using assms by (rule reachable_wf)
  show ?thesis
  proof (cases "pantries db (get_fingerprint p)")
    case None
    with wf show ?thesis
      by (auto simp add: add_pantry_cases db_wf_def total_records_def)
  next
    case (Some e)
    with wf show ?thesis
      by (auto simp add: add_pantry_cases db_wf_def total_records_def insert_absorb)
  qed
qed

theorem add_pantry_inserts_or_merges_witness:
  "add_all init_db [] = Inr init_db \<and>
   add_pantry init_db community_pantry =
     Inr (True, \<lparr>pantries = [get_fingerprint community_pantry \<mapsto> community_pantry],
                 fingerprints = {get_fingerprint community_pantry}\<rparr>) \<and>
   add_all init_db [community_pantry] =
     Inr \<lparr>pantries = [get_fingerprint community_pantry \<mapsto> community_pantry],
          fingerprints = {get_fingerprint community_pantry}\<rparr> \<and>
   add_pantry \<lparr>pantries = [get_fingerprint community_pantry \<mapsto> community_pantry],
               fingerprints = {get_fingerprint community_pantry}\<rparr> community_pantry_211 =
     Inr (False, \<lparr>pantries = [get_fingerprint community_pantry \<mapsto>
                                 merge_with community_pantry community_pantry_211],
                  fingerprints = {get_fingerprint community_pantry}\<rparr>)"
proof -
  let ?db = "\<lparr>pantries = [get_fingerprint community_pantry \<mapsto> community_pantry],
          fingerprints = {get_fingerprint community_pantry}\<rparr>"
  have e: "add_all init_db [] = Inr init_db" by simp
  from add_pantry_inserts_or_merges [OF e, of community_pantry]
  have 1: "add_pantry init_db community_pantry = Inr (True, ?db)"
    by (simp add: init_db_def)
  then have r: "add_all init_db [community_pantry] = Inr ?db" by simp
  from add_pantry_inserts_or_merges [OF r, of community_pantry_211]
  have 2: "add_pantry ?db community_pantry_211 =
     Inr (False, \<lparr>pantries = [get_fingerprint community_pantry \<mapsto>
                                 merge_with community_pantry community_pantry_211],
                  fingerprints = {get_fingerprint community_pantry}\<rparr>)"
    by (simp add: community_fp)
  from e 1 r 2 show ?thesis by blast
qed

text \<open>
  Claim C4. Merging a record with itself gives the record back. Hence, on every store
  reached from the empty one, a second \<open>add_pantry\<close> call with the same record returns
  false and changes nothing: the number of stored records and the record stored under
  the fingerprint are those left by the first call.
\<close>

theorem merge_idempotent_add_twice:
  "merge_with r r = r \<and>
   (add_all init_db ps = Inr db \<longrightarrow>
     (\<exists>is_new db1 db2. add_pantry db r = Inr (is_new, db1) \<and>
        add_pantry db1 r = Inr (False, db2) \<and>
        total_records db2 = total_records db1 \<and>
        pantries db2 (get_fingerprint r) = pantries db1 (get_fingerprint r) \<and>
        db2 = db1))"
proof (intro conjI impI)
  show "merge_with r r = r"
    by (rule merge_with_idem)
next
  assume "add_all init_db ps = Inr db"
  then have wf: "db_wf db" by (rule reachable_wf)
  show "\<exists>is_new db1 db2. add_pantry db r = Inr (is_new, db1) \<and>
        add_pantry db1 r = Inr (False, db2) \<and>
        total_records db2 = total_records db1 \<and>
        pantries db2 (get_fingerprint r) = pantries db1 (get_fingerprint r) \<and>
        db2 = db1"
  proof (cases "pantries db (get_fingerprint r)")
    case None
    let ?db1 = "db\<lparr>pantries := (pantries db)(get_fingerprint r \<mapsto> r),
                   fingerprints := insert (get_fingerprint r) (fingerprints db)\<rparr>"
    have 1: "add_pantry db r = Inr (True, ?db1)"
      using None wf by (simp add: add_pantry_cases)
    have "add_pantry ?db1 r = Inr (False, ?db1)"
      by (simp add: add_pantry_def Let_def merge_with_idem)
    with 1 show ?thesis by blast
  next
    case (Some e)
    let ?db1 = "db\<lparr>pantries := (pantries db)(get_fingerprint r \<mapsto> merge_with e r)\<rparr>"
    have 1: "add_pantry db r = Inr (False, ?db1)"
      using Some wf by (simp add: add_pantry_cases)
    have "get_fingerprint r \<in> fingerprints db"
      using Some wf by (auto simp add: db_wf_def)
    then have "add_pantry ?db1 r = Inr (False, ?db1)"
      by (simp add: add_pantry_def Let_def merge_with_absorb)
    with 1 show ?thesis by blast
  qed
qed

theorem merge_idempotent_add_twice_witness:
  "add_all init_db [] = Inr init_db \<and>
   merge_with with_website with_website = with_website \<and>
   (\<exists>is_new db1 db2. add_pantry init_db with_website = Inr (is_new, db1) \<and>
        add_pantry db1 with_website = Inr (False, db2) \<and>
        total_records db2 = total_records db1 \<and>
        pantries db2 (get_fingerprint with_website) = pantries db1 (get_fingerprint with_website) \<and>
        db2 = db1)"
  using merge_idempotent_add_twice [of with_website "[]" init_db]
  by simp

subsection \<open>Fingerprints\<close>

lemma strip_Nil: "strip [] = []"
  by (simp add: strip_def)

lemma name_norm_text: "name_norm p = strip (lower (name p))"
  by (simp add: name_norm_def lower_def strip_Nil)

lemma addr_norm_text: "addr_norm p = strip (lower (text_or_empty (address p)))"
  by (simp add: addr_norm_def text_or_empty_def lower_def strip_Nil split: option.splits)

lemma phone_norm_text: "phone_norm p = digits_only (text_or_empty (phone p))"
  by (simp add: phone_norm_def text_or_empty_def digits_only_def split: option.splits)

lemma zip_or_empty_text: "zip_or_empty p = text_or_empty (zip_code p)"
  by (simp add: zip_or_empty_def text_or_empty_def truthy_def py_str_def split: option.splits)

text \<open>
  Claim C2. Two records whose names are equal after lower-casing and trimming, whose
  addresses are equal after lower-casing and trimming, whose phone numbers have the same
  digits in the same order, and whose zip fields are equal have the same fingerprint. An
  absent address, phone or zip is read as the empty string.
\<close>

theorem fingerprint_stable:
  assumes "strip (lower (name a)) = strip (lower (name b))"
    and "strip (lower (text_or_empty (address a))) = strip (lower (text_or_empty (address b)))"
    and "digits_only (text_or_empty (phone a)) = digits_only (text_or_empty (phone b))"
    and "text_or_empty (zip_code a) = text_or_empty (zip_code b)"
  shows "get_fingerprint a = get_fingerprint b"
  using assms
  by (simp add: get_fingerprint_def fingerprint_str_def name_norm_text addr_norm_text
      phone_norm_text zip_or_empty_text)

theorem fingerprint_stable_witness:
  "strip (lower (name community_pantry)) = strip (lower (name community_pantry_211)) \<and>
   strip (lower (text_or_empty (address community_pantry)))
     = strip (lower (text_or_empty (address community_pantry_211))) \<and>
   digits_only (text_or_empty (phone community_pantry))
     = digits_only (text_or_empty (phone community_pantry_211)) \<and>
   text_or_empty (zip_code community_pantry) = text_or_empty (zip_code community_pantry_211) \<and>
   get_fingerprint community_pantry = get_fingerprint community_pantry_211"
proof -
  have 1: "strip (lower (name community_pantry)) = strip (lower (name community_pantry_211))"
    by code_simp
  have 2: "strip (lower (text_or_empty (address community_pantry)))
     = strip (lower (text_or_empty (address community_pantry_211)))"
    by code_simp
  have 3: "digits_only (text_or_empty (phone community_pantry))
     = digits_only (text_or_empty (phone community_pantry_211))"
    by code_simp
  have 4: "text_or_empty (zip_code community_pantry)
     = text_or_empty (zip_code community_pantry_211)"
    by code_simp
  from 1 2 3 4 fingerprint_stable [OF 1 2 3 4] show ?thesis by blast
qed

lemma merge_same_identity:
  assumes "same_identity e p"
  shows "fingerprint_str (merge_with e p) = fingerprint_str e"
proof -
  have "name_norm (merge_with e p) = name_norm e"
    using assms merge_name_cases [of "name e" "name p"]
    by (auto simp add: same_identity_def name_norm_def merge_with_def)
  moreover have "addr_norm (merge_with e p) = addr_norm e"
    using assms merge_val_cases [of "address e" "address p"]
    by (auto simp add: same_identity_def addr_norm_def merge_with_def)
  moreover have "phone_norm (merge_with e p) = phone_norm e"
    using assms merge_val_cases [of "phone e" "phone p"]
    by (auto simp add: same_identity_def phone_norm_def merge_with_def)
  moreover have "zip_or_empty (merge_with e p) = zip_or_empty e"
    using assms merge_val_cases [of "zip_code e" "zip_code p"]
    by (auto simp add: same_identity_def zip_or_empty_def merge_with_def)
  ultimately show ?thesis by (simp add: fingerprint_str_def)
qed

lemma add_all_keys_match:
  "db_wf db \<Longrightarrow> keys_match db \<Longrightarrow> collisions_agree db ps \<Longrightarrow> add_all db ps = Inr db' \<Longrightarrow>
   keys_match db'"
proof (induction ps arbitrary: db)
  case Nil
  then show ?case by simp
next
  case (Cons p ps)
  from Cons.prems(4) obtain b db1 where a: "add_pantry db p = Inr (b, db1)"
    and r: "add_all db1 ps = Inr db'"
    by (auto split: sum.splits)
  have wf1: "db_wf db1" using Cons.prems(1) a by (rule add_pantry_wf)
  have ag: "collisions_agree db1 ps" using Cons.prems(3) a by simp
  have "keys_match db1"
  proof (cases "pantries db (get_fingerprint p)")
    case None
    with a Cons.prems(1,2) show ?thesis
      by (auto simp add: add_pantry_cases keys_match_def split: if_splits)
  next
    case (Some e)
    have "same_identity e p" using Cons.prems(3) Some by simp
    then have "get_fingerprint (merge_with e p) = get_fingerprint e"
      by (simp add: get_fingerprint_def merge_same_identity)
    moreover have "get_fingerprint e = get_fingerprint p"
      using Cons.prems(2) Some by (simp add: keys_match_def)
    ultimately show ?thesis
      using a Some Cons.prems(1,2)
      by (auto simp add: add_pantry_cases keys_match_def split: if_splits)
  qed
  then show ?case using wf1 ag r Cons.IH by blast
qed

lemma bar_in_name_fp: "get_fingerprint bar_in_name = ''be89d0ce8c3a4b22d7adee60d1e2bb95''"
  by code_simp

lemma bar_in_address_fp: "get_fingerprint bar_in_address = ''be89d0ce8c3a4b22d7adee60d1e2bb95''"
  by code_simp

lemma bar_merged_fp:
  "get_fingerprint (merge_with bar_in_name bar_in_address) = ''7233b9b44b14db3a04b5c6dce1c68f5b''"
  by code_simp

text \<open>
  Claim C10, as amended. On every store reached from the empty one by \<open>add_pantry\<close>
  calls, the set of fingerprints is the key set of the dictionary; and when every added
  record that met a stored record under its key agreed with it on the normalised name,
  the normalised address, the digits of the phone and the zip, every stored record
  hashes to the key it is stored under.
\<close>

theorem store_keys:
  assumes "add_all init_db ps = Inr db"
  shows "fingerprints db = dom (pantries db) \<and>
     (collisions_agree init_db ps \<longrightarrow> (\<forall>k r. pantries db k = Some r \<longrightarrow> get_fingerprint r = k))"
proof (intro conjI impI)
  show "fingerprints db = dom (pantries db)"
    using reachable_wf [OF assms] by (simp add: db_wf_def)
next
  assume "collisions_agree init_db ps"
  moreover have "keys_match init_db" by (simp add: keys_match_def init_db_def)
  ultimately have "keys_match db"
    using init_wf assms by (blast intro: add_all_keys_match)
  then show "\<forall>k r. pantries db k = Some r \<longrightarrow> get_fingerprint r = k"
    by (simp add: keys_match_def)
qed

theorem store_keys_witness:
  "add_all init_db [community_pantry, community_pantry_211] =
     Inr \<lparr>pantries = [get_fingerprint community_pantry \<mapsto>
                        merge_with community_pantry community_pantry_211],
          fingerprints = {get_fingerprint community_pantry}\<rparr> \<and>
   collisions_agree init_db [community_pantry, community_pantry_211] \<and>
   get_fingerprint (merge_with community_pantry community_pantry_211)
     = get_fingerprint community_pantry"
proof -
  let ?db = "\<lparr>pantries = [get_fingerprint community_pantry \<mapsto>
                        merge_with community_pantry community_pantry_211],
          fingerprints = {get_fingerprint community_pantry}\<rparr>"
  have run: "add_all init_db [community_pantry, community_pantry_211] = Inr ?db"
    by (simp add: add_pantry_def Let_def init_db_def community_fp)
  have ag: "collisions_agree init_db [community_pantry, community_pantry_211]"
    by (simp add: add_pantry_def Let_def init_db_def community_fp community_same)
  have "pantries ?db (get_fingerprint community_pantry)
          = Some (merge_with community_pantry community_pantry_211)"
    by simp
  with store_keys [OF run] ag
  have "get_fingerprint (merge_with community_pantry community_pantry_211)
     = get_fingerprint community_pantry"
    by blast
  with run ag show ?thesis by blast
qed

text \<open>
  The claim as stated fails: the fingerprint string joins its parts with a bar and does
  not escape a bar inside a part. The records (name "a|b", address "c") and (name "a",
  address "b|c") have the same fingerprint string "a|b|c||"; their merge keeps the
  longer name and the longer address, so its fingerprint string is "a|b|b|c||", and it
  is stored under the key of "a|b|c||".
\<close>

theorem store_keys_counterexample:
  "(case add_all init_db [bar_in_name, bar_in_address] of
      Inl e \<Rightarrow> False
    | Inr db \<Rightarrow>
        (case pantries db (get_fingerprint bar_in_name) of
           None \<Rightarrow> False
         | Some r \<Rightarrow> get_fingerprint r \<noteq> get_fingerprint bar_in_name))"
  by (simp add: add_pantry_def Let_def init_db_def bar_in_name_fp bar_in_address_fp
      bar_merged_fp)

section \<open>Properties of the extraction\<close>





lemma scrape_pantry_details_fields:
  assumes "scrape_pantry_details search fetch url = Some r"
  shows "\<exists>soup. fetch url = Some soup \<and>
     truthy (map_option (\<lambda>m. strip (m 1)) (search Name_Contact (page_text soup))) \<and>
     name r = py_str (map_option (\<lambda>m. strip (m 1)) (search Name_Contact (page_text soup))) \<and>
     hours r = cascade search (\<lambda>p. 1) 500 [Hours_Label] (page_text soup) \<and>
     requirements r =
       (case search Requirements_Label (page_text soup) of
          Some m \<Rightarrow> (if length (strip (m 1)) < 500 then Some (strip (m 1)) else None)
        | None \<Rightarrow> None) \<and>
     description r = None \<and>
     email r = fst (scan_links (links soup) None) \<and>
     website r = snd (scan_links (links soup) None)"
proof (cases "fetch url")
  case None
  with assms show ?thesis by (simp add: scrape_pantry_details_def)
next
  case (Some soup)
  with assms show ?thesis
    by (cases "truthy (map_option (\<lambda>m. strip (m 1)) (search Name_Contact (page_text soup)))")
       (auto simp add: scrape_pantry_details_def Let_def
          simp del: cascade.simps scan_links.simps split: option.splits)
qed

lemma scrape_pantry_detail_fields:
  assumes "scrape_pantry_detail region search fetch url = Some r"
  shows "\<exists>soup. fetch url = Some soup \<and>
     name r \<noteq> [] \<and>
     hours r = cascade search (\<lambda>p. 1) 500 [Hours_211, Open_211] (page_text_lines soup) \<and>
     description r =
       cascade search (\<lambda>p. 1) 1000 [Description_211, Service_Description_211]
         (page_text_lines soup) \<and>
     requirements r =
       cascade search (\<lambda>p. 1) 500 [Eligibility_211, Requirements_211] (page_text_lines soup)"
proof (cases "fetch url")
  case None
  with assms show ?thesis by (simp add: scrape_pantry_detail_def)
next
  case (Some soup)
  let ?n = "(if \<not> truthy (map_option strip (h1 soup))
                  then (case title soup of
                          Some t \<Rightarrow> Some (strip (before_bar (strip t)))
                        | None \<Rightarrow> map_option strip (h1 soup))
                  else map_option strip (h1 soup))"
  from assms Some show ?thesis
    by (cases "truthy ?n")
       (auto simp add: scrape_pantry_detail_def Let_def truthy_def py_str_def
          simp del: cascade.simps first_match.simps find_website_211.simps
          split: option.splits)
qed






lemma email_link_truthy: "email_link l \<Longrightarrow> truthy (Some (mail_address l))"
  by (auto simp add: email_link_def truthy_def contains_def)

lemma scan_links_mail:
  assumes "is_mailto l"
  shows "scan_links (l # rest) em =
     scan_links rest (if email_link l \<and> \<not> truthy em then Some (mail_address l) else em)"
  using assms by (simp add: Let_def is_mailto_def email_link_def mail_address_def)

lemma scan_links_site:
  assumes "website_link l"
  shows "scan_links (l # rest) em = (em, Some (strip (href l)))"
  using assms
  by (auto simp add: Let_def is_mailto_def website_link_def text_or_empty_def strip_Nil
      split: option.splits)

lemma scan_links_other:
  assumes "\<not> is_mailto l" "\<not> website_link l"
  shows "scan_links (l # rest) em = scan_links rest em"
  using assms
  by (auto simp add: Let_def is_mailto_def website_link_def text_or_empty_def strip_Nil
      split: option.splits)

lemma scan_links_find:
  "scan_links ls em =
     (if truthy em then em
      else (case find email_link (takeWhile (Not \<circ> website_link) ls) of
              None \<Rightarrow> em | Some l \<Rightarrow> Some (mail_address l)),
      map_option (strip \<circ> href) (find website_link ls))"
proof (induction ls arbitrary: em)
  case Nil
  then show ?case by simp
next
  case (Cons l ls)
  show ?case
  proof (cases "is_mailto l")
    case True
    then have nw: "\<not> website_link l" by (simp add: website_link_def)
    show ?thesis
      using nw email_link_truthy [of l]
      by (simp only: scan_links_mail [OF True] Cons.IH) (simp del: scan_links.simps)
  next
    case False
    then have ne: "\<not> email_link l" by (simp add: email_link_def)
    show ?thesis
    proof (cases "website_link l")
      case True
      with ne show ?thesis
        by (simp only: scan_links_site [OF True]) simp
    next
      case nw: False
      with ne show ?thesis
        by (simp only: scan_links_other [OF False nw] Cons.IH) simp
    qed
  qed
qed

lemma flask_scan_links_mail:
  assumes "contains (href l) ''mailto:''"
  shows "flask_scan_links (l # rest) found =
     flask_scan_links rest
       (if flask_email_link l \<and> \<not> truthy (fst found)
        then (Some (flask_mail_address l), snd found) else found)"
  using assms by (simp add: Let_def flask_email_link_def flask_mail_address_def)

lemma flask_scan_links_email:
  "fst (flask_scan_links ls found) =
     (if truthy (fst found) then fst found
      else (case find flask_email_link ls of
              None \<Rightarrow> fst found | Some l \<Rightarrow> Some (flask_mail_address l)))"
proof (induction ls arbitrary: found)
  case Nil
  then show ?case by simp
next
  case (Cons l ls)
  have t: "flask_email_link l \<Longrightarrow> truthy (Some (flask_mail_address l))"
    by (auto simp add: flask_email_link_def truthy_def contains_def)
  show ?case
  proof (cases "contains (href l) ''mailto:''")
    case True
    show ?thesis
      using t by (simp only: flask_scan_links_mail [OF True] Cons.IH) simp
  next
    case False
    then have ne: "\<not> flask_email_link l" by (simp add: flask_email_link_def)
    have "flask_scan_links (l # ls) found = flask_scan_links ls found \<or>
          flask_scan_links (l # ls) found = flask_scan_links ls (fst found, Some (href l))"
      using False by (simp add: Let_def)
    then show ?thesis
      using ne
      by (auto simp add: Cons.IH simp del: flask_scan_links.simps split: option.splits)
  qed
qed

lemma scrape_pantry_details_named:
  "scrape_pantry_details search fetch url = Some r \<Longrightarrow> name r \<noteq> []"
  using scrape_pantry_details_fields [of search fetch url r]
  by (auto simp add: truthy_def py_str_def split: option.splits)

lemma scrape_pantry_detail_named:
  "scrape_pantry_detail region search fetch url = Some r \<Longrightarrow> name r \<noteq> []"
  using scrape_pantry_detail_fields [of region search fetch url r]
  by auto

lemma scrape_pantry_details_no_name:
  "fetch url = Some soup \<Longrightarrow> search Name_Contact (page_text soup) = None \<Longrightarrow>
   scrape_pantry_details search fetch url = None"
  by (simp add: scrape_pantry_details_def Let_def truthy_def)

lemma scrape_pantry_detail_no_name:
  "fetch url = Some soup \<Longrightarrow> \<not> truthy (map_option strip (h1 soup)) \<Longrightarrow>
   (case title soup of None \<Rightarrow> True | Some t \<Rightarrow> strip (before_bar (strip t)) = []) \<Longrightarrow>
   scrape_pantry_detail region search fetch url = None"
  by (auto simp add: scrape_pantry_detail_def Let_def truthy_def split: option.splits
      simp del: cascade.simps first_match.simps find_website_211.simps)

text \<open>
  Claim C5: when no rule yields a name, detail extraction returns absent, and every
  record handed on has a name. The two scrapers of \<open>foodpantries-scraper.py\<close> do so
  (\<open>scrape_pantry_details_named\<close>, \<open>scrape_pantry_detail_named\<close>,
  \<open>scrape_pantry_details_no_name\<close>, \<open>scrape_pantry_detail_no_name\<close>). The scraper of
  \<open>flask-scraper-backend.py\<close> has no such test: on a page where no pattern matches it
  returns a record whose name is absent, and the background thread appends that record
  to \<open>data\<close>.
\<close>

theorem flask_record_without_name:
  "env_search quiet_env Name_Contact (page_text plain_page) = None \<and>
   flask_scrape_pantry_details (env_search quiet_env) (env_fetch quiet_env) plain_time plain_url
     = Some nameless_record \<and>
   d_name nameless_record = None \<and>
   data (job (run quiet_env [Work, Work, Work, Work] ohio_thread)) = [nameless_record]"
  by code_simp






lemma scrape_pantry_details_found:
  assumes "fetch url = Some soup"
    and "truthy (map_option (\<lambda>m. strip (m 1)) (search Name_Contact (page_text soup)))"
  shows "\<exists>r. scrape_pantry_details search fetch url = Some r \<and>
     email r = fst (scan_links (links soup) None) \<and>
     website r = snd (scan_links (links soup) None)"
  using assms
  by (simp add: scrape_pantry_details_def Let_def del: cascade.simps scan_links.simps)

lemma flask_scrape_pantry_details_found:
  assumes "fetch url = Some soup"
  shows "\<exists>d. flask_scrape_pantry_details search fetch now url = Some d \<and>
     d_email d = fst (flask_scan_links (links soup) (None, None)) \<and> geo d = (None :: 'g option)"
  using assms
  by (simp add: flask_scrape_pantry_details_def Let_def
      del: cascade.simps flask_scan_links.simps)

text \<open>
  Claim C6, as amended. On a fetched page whose name is found, extraction by
  \<open>foodpantries-scraper.py\<close> succeeds whatever the anchors are; the website is the
  stripped \<open>href\<close> of the first anchor that is not a mail link, starts with "http", does
  not contain "foodpantries.org", and whose lower-cased text contains "website", "visit",
  "home" or "more info" or whose parent's text contains "website", and it is absent when
  there is no such anchor; the email is the address of the first mail link whose address
  has an at sign among the anchors before that one, and absent when there is none. By
  \<open>flask-scraper-backend.py\<close> extraction succeeds on every fetched page, and the email is
  the address of the first mail link whose address has an at sign among all anchors.
\<close>

theorem contact_links:
  assumes "fetch url = Some soup"
  shows "(truthy (map_option (\<lambda>m. strip (m 1)) (search Name_Contact (page_text soup))) \<longrightarrow>
      (\<exists>r. scrape_pantry_details search fetch url = Some r \<and>
         website r = map_option (strip \<circ> href) (find website_link (links soup)) \<and>
         email r = map_option mail_address
                     (find email_link (takeWhile (Not \<circ> website_link) (links soup)))))
    \<and> (\<exists>d. flask_scrape_pantry_details search fetch now url = Some d \<and>
          geo d = (None :: 'g option) \<and>
          d_email d = map_option flask_mail_address (find flask_email_link (links soup)))"
proof (intro conjI impI)
  assume "truthy (map_option (\<lambda>m. strip (m 1)) (search Name_Contact (page_text soup)))"
  with assms obtain r where "scrape_pantry_details search fetch url = Some r"
    and "email r = fst (scan_links (links soup) None)"
    and "website r = snd (scan_links (links soup) None)"
    using scrape_pantry_details_found by blast
  then show "\<exists>r. scrape_pantry_details search fetch url = Some r \<and>
         website r = map_option (strip \<circ> href) (find website_link (links soup)) \<and>
         email r = map_option mail_address
                     (find email_link (takeWhile (Not \<circ> website_link) (links soup)))"
    by (auto simp add: scan_links_find truthy_def split: option.splits
        simp del: scan_links.simps)
next
  from assms obtain d :: "'g pantry_data"
    where "flask_scrape_pantry_details search fetch now url = Some d"
    and "d_email d = fst (flask_scan_links (links soup) (None, None))" and "geo d = None"
    using flask_scrape_pantry_details_found by blast
  then show "\<exists>d. flask_scrape_pantry_details search fetch now url = Some d \<and>
          geo d = (None :: 'g option) \<and>
          d_email d = map_option flask_mail_address (find flask_email_link (links soup))"
    by (auto simp add: flask_scan_links_email truthy_def split: option.splits
        simp del: flask_scan_links.simps)
qed

lemma links_page_choice:
  "map_option (strip \<circ> href) (find website_link (links links_page))
     = Some ''http://donate.example.com''"
  "map_option mail_address (find email_link (takeWhile (Not \<circ> website_link) (links links_page)))
     = Some ''info@pantry.org''"
  "map_option flask_mail_address (find flask_email_link (links links_page))
     = Some ''info@pantry.org''"
  "truthy (map_option (\<lambda>m. strip (m 1)) (named_search Name_Contact (page_text links_page)))"
  by code_simp+

theorem contact_links_witness:
  "(\<exists>r. scrape_pantry_details named_search (\<lambda>u. Some links_page) plain_url = Some r \<and>
        website r = Some ''http://donate.example.com'' \<and> email r = Some ''info@pantry.org'')
   \<and> (\<exists>d. flask_scrape_pantry_details named_search (\<lambda>u. Some links_page) plain_time plain_url
            = Some d \<and> geo d = (None :: unit option) \<and> d_email d = Some ''info@pantry.org'')"
proof -
  have f: "(\<lambda>u. Some links_page) plain_url = Some links_page" by simp
  note c = contact_links [where fetch = "\<lambda>u. Some links_page" and url = plain_url
      and soup = links_page and search = named_search and now = plain_time and ?'g = unit,
      OF f]
  from c links_page_choice(4)
  have "\<exists>r. scrape_pantry_details named_search (\<lambda>u. Some links_page) plain_url = Some r \<and>
         website r = map_option (strip \<circ> href) (find website_link (links links_page)) \<and>
         email r = map_option mail_address
                     (find email_link (takeWhile (Not \<circ> website_link) (links links_page)))"
    by blast
  moreover from c
  have "\<exists>d. flask_scrape_pantry_details named_search (\<lambda>u. Some links_page) plain_time plain_url
            = Some d \<and> geo d = (None :: unit option) \<and>
            d_email d = map_option flask_mail_address (find flask_email_link (links links_page))"
    by blast
  ultimately show ?thesis by (simp only: links_page_choice) 
qed

lemma links_page_spec:
  "spec_website (links links_page) = Some ''http://pantry.example.org''"
  "spec_email (links links_page) = Some ''office''"
  by code_simp+

lemma links_page_record:
  "scrape_pantry_details named_search (\<lambda>u. Some links_page) plain_url
     = Some ((new_Pantry ''Community Pantry'')
          \<lparr>email := Some ''info@pantry.org'', website := Some ''http://donate.example.com'',
           source_url := Some plain_url, source_site := Some ''foodpantries.org''\<rparr>)"
  by code_simp

text \<open>
  The claim as stated fails on a page with the anchors "mailto:office",
  "mailto:info@pantry.org", a link to donate.example.com with the text "More info" and a
  link to pantry.example.org with the text "Visit our website": the website of the
  record is the third anchor, which has none of "website", "visit" and "home", and its
  email is the address of the second mail link.
\<close>

theorem contact_links_counterexample:
  "(case scrape_pantry_details named_search (\<lambda>u. Some links_page) plain_url of
      None \<Rightarrow> False
    | Some r \<Rightarrow>
        website r = Some ''http://donate.example.com'' \<and>
        spec_website (links links_page) = Some ''http://pantry.example.org'' \<and>
        email r = Some ''info@pantry.org'' \<and>
        spec_email (links links_page) = Some ''office'')"
  by (simp add: links_page_record links_page_spec)

section \<open>Properties of the background job\<close>


















text \<open>
  Claim C8, as amended. While a run is in progress a start request is rejected with
  "Scraping already in progress" and the job is unchanged. When no run is in progress
  and the request names a state, \<open>current\<close> and \<open>total\<close> are reset to zero, \<open>data\<close> is
  emptied, \<open>is_scraping\<close> is set and the thread is started; when the request names no
  state, it is rejected with "State is required" and the job is unchanged.
\<close>

theorem start_scrape_cases:
  "(is_scraping st \<longrightarrow>
      start_scrape st req = (Failure ''Scraping already in progress'' 400, st, None))
   \<and> (\<not> is_scraping st \<and> truthy (req_state req) \<longrightarrow>
      start_scrape st req =
        (Success ''Scraping started'',
         st\<lparr>is_scraping := True, current := 0, n_total := 0, status := ''Starting...'', data := []\<rparr>,
         Some \<lparr>arg_state = py_str (req_state req), arg_limit = req_limit req,
               arg_geocode = req_geocode req\<rparr>))
   \<and> (\<not> is_scraping st \<and> \<not> truthy (req_state req) \<longrightarrow>
      start_scrape st req = (Failure ''State is required'' 400, st, None))"
  by (simp add: start_scrape_def)

lemma started_job_eq:
  "started_job = \<lparr>is_scraping = True, current = 0, n_total = 0, status = ''Starting...'',
      data = [], stop_event = False\<rparr>"
  by (simp add: started_job_def start_scrape_def idle_job_def ohio_request_def truthy_def)

theorem start_scrape_cases_witness:
  "is_scraping started_job \<and>
   start_scrape started_job ohio_request
     = (Failure ''Scraping already in progress'' 400, started_job, None) \<and>
   \<not> is_scraping idle_job \<and> truthy (req_state ohio_request) \<and>
   start_scrape idle_job ohio_request
     = (Success ''Scraping started'',
        \<lparr>is_scraping = True, current = 0, n_total = 0, status = ''Starting...'',
         data = [], stop_event = False\<rparr>, Some ohio_args) \<and>
   \<not> truthy (req_state empty_request) \<and>
   start_scrape idle_job empty_request = (Failure ''State is required'' 400, idle_job, None)"
proof -
  have a: "is_scraping started_job" by (simp add: started_job_eq)
  have b: "\<not> is_scraping idle_job" by (simp add: idle_job_def)
  have c: "truthy (req_state ohio_request)" by (simp add: ohio_request_def truthy_def)
  have d: "\<not> truthy (req_state empty_request)" by (simp add: empty_request_def truthy_def)
  from start_scrape_cases [of started_job ohio_request] a
  have 1: "start_scrape started_job ohio_request
     = (Failure ''Scraping already in progress'' 400, started_job, None)" by blast
  from start_scrape_cases [of idle_job ohio_request] b c
  have 2: "start_scrape idle_job ohio_request
     = (Success ''Scraping started'',
        \<lparr>is_scraping = True, current = 0, n_total = 0, status = ''Starting...'',
         data = [], stop_event = False\<rparr>, Some ohio_args)"
    by (simp add: idle_job_def ohio_request_def ohio_args_def py_str_def)
  from start_scrape_cases [of idle_job empty_request] b d
  have 3: "start_scrape idle_job empty_request = (Failure ''State is required'' 400, idle_job, None)"
    by blast
  from a b c d 1 2 3 show ?thesis by blast
qed

text \<open>
  The claim as stated fails: no run is in progress, the request names no state, and the
  counters and the records of the last run stay as they are.
\<close>

theorem start_scrape_counterexample:
  "\<not> is_scraping idle_job \<and>
   current (fst (snd (start_scrape idle_job empty_request))) \<noteq> 0 \<and>
   n_total (fst (snd (start_scrape idle_job empty_request))) \<noteq> 0 \<and>
   data (fst (snd (start_scrape idle_job empty_request))) \<noteq> [] \<and>
   \<not> is_scraping (fst (snd (start_scrape idle_job empty_request)))"
  by (simp add: start_scrape_def idle_job_def empty_request_def truthy_def)








text \<open>
  A stop request that is served after the last test of the loop is seen only after the
  loop: the status is neither that of a stopped nor that of a completed run.
\<close>

lemma late_stop_stale_status:
  "pc late_stop = Finished \<and> stop_event (job late_stop) \<and> \<not> is_scraping (job late_stop) \<and>
   status (job late_stop) = ''Scraping pantry 10 of 10...'' \<and>
   visited late_stop = [0, 1, 2, 3, 4, 5, 6, 7, 8, 9]"
  by code_simp

end
